theory Spec2Isabelle
  imports Complex_Main
begin

section \<open>Module constants\<close>

text \<open>
  \<^verbatim>\<open>backend_api.py\<close> fixes five model constants at import time and never assigns them
  again. \<^verbatim>\<open>get_sample_date_range\<close> reads two of them as globals; the embedding passes the
  constants explicitly as a record, so that a statement can range over every sequence
  length and horizon, and names the values of the module \<open>module_config\<close>.
  Python integers are unbounded, hence \<open>int\<close>.
\<close>

record config =
  SEQ_LEN :: int
  HORIZONS :: int
  PATCH_H :: int
  PATCH_W :: int
  CHANNELS :: int

definition module_config :: config where
  "module_config = \<lparr>SEQ_LEN = 6, HORIZONS = 3, PATCH_H = 13, PATCH_W = 13, CHANNELS = 7\<rparr>"

definition FIXED_SAMPLE_INDEX :: int where
  "FIXED_SAMPLE_INDEX = 17"

section \<open>Naive datetimes and whole-hour arithmetic\<close>

text \<open>
  \<^verbatim>\<open>datetime\<close> and \<^verbatim>\<open>timedelta\<close> come from Python's standard library. A naive datetime
  is a proleptic Gregorian date between the years 1 and 9999 with a time of day; the model
  keeps its seven fields. Day 1 of the ordinal count is 0001-01-01.
\<close>

record datetime =
  year :: int
  month :: int
  day :: int
  hour :: int
  minute :: int
  second :: int
  microsecond :: int

definition is_leap :: "int \<Rightarrow> bool" where
  "is_leap y = (if y mod 100 = 0 then y mod 400 = 0 else y mod 4 = 0)"

definition days_before_year :: "int \<Rightarrow> int" where
  "days_before_year y = (let p = y - 1 in p * 365 + p div 4 - p div 100 + p div 400)"

definition days_in_month :: "int \<Rightarrow> int \<Rightarrow> int" where
  "days_in_month y m =
     (if m = 2 then (if is_leap y then 29 else 28)
      else if m = 4 \<or> m = 6 \<or> m = 9 \<or> m = 11 then 30 else 31)"

function days_before_month :: "int \<Rightarrow> int \<Rightarrow> int" where
  "days_before_month y m =
     (if m \<le> 1 then 0 else days_before_month y (m - 1) + days_in_month y (m - 1))"
  by pat_completeness auto
termination
  by (relation "measure (\<lambda>(y, m). nat m)") auto

declare days_before_month.simps [simp del]

definition toordinal :: "datetime \<Rightarrow> int" where
  "toordinal dt =
     days_before_year (year dt) + days_before_month (year dt) (month dt) + day dt"

text \<open>
  From an ordinal back to a date: the year by the cycles of 400, 100, 4 and 1 years (the
  last day of a leap cycle belongs to the cycle's last year, hence the cap at 3 whole
  cycles), then the month by walking the months of that year.
\<close>

definition cycles :: "int \<Rightarrow> int \<Rightarrow> int \<times> int" where
  "cycles len k = (k div len, k mod len)"

definition capped_cycles :: "int \<Rightarrow> int \<Rightarrow> int \<times> int" where
  "capped_cycles len k = (if k div len < 3 then (k div len, k mod len) else (3, k - 3 * len))"

definition year_of_ordinal :: "int \<Rightarrow> int \<times> int" where
  "year_of_ordinal n =
     (case cycles 146097 (n - 1) of (c400, r400) \<Rightarrow>
      case capped_cycles 36524 r400 of (c100, r100) \<Rightarrow>
      case cycles 1461 r100 of (c4, r4) \<Rightarrow>
      case capped_cycles 365 r4 of (c1, r1) \<Rightarrow>
        (c400 * 400 + c100 * 100 + c4 * 4 + c1 + 1, r1))"

function month_day_of :: "int \<Rightarrow> int \<Rightarrow> int \<Rightarrow> int \<times> int" where
  "month_day_of y m n =
     (if m < 12 \<and> days_in_month y m \<le> n
      then month_day_of y (m + 1) (n - days_in_month y m)
      else (m, n + 1))"
  by pat_completeness auto
termination
  by (relation "measure (\<lambda>(y, m, n). nat (12 - m))") auto

declare month_day_of.simps [simp del]

definition fromordinal :: "int \<Rightarrow> int \<times> int \<times> int" where
  "fromordinal n =
     (case year_of_ordinal n of (y, yday) \<Rightarrow>
      case month_day_of y 1 yday of (m, d) \<Rightarrow> (y, m, d))"

definition MAXORDINAL :: int where
  "MAXORDINAL = 3652059"

definition MAX_DELTA_DAYS :: int where
  "MAX_DELTA_DAYS = 999999999"

text \<open>
  \<^verbatim>\<open>start_date + timedelta(hours=n)\<close>. Both steps can raise \<^verbatim>\<open>OverflowError\<close>: the
  \<^verbatim>\<open>timedelta\<close> constructor when the normalised day count exceeds 999999999 in magnitude,
  the addition when the result leaves the years 1 to 9999. \<open>None\<close> is that exception.
  Python's \<^verbatim>\<open>divmod\<close> floors, as \<open>div\<close> and \<open>mod\<close> on \<open>int\<close> do.
\<close>

definition add_hours :: "datetime \<Rightarrow> int \<Rightarrow> datetime option" where
  "add_hours dt n =
     (let delta_days = n div 24; delta_seconds = (n mod 24) * 3600
      in if MAX_DELTA_DAYS < \<bar>delta_days\<bar> then None
         else
           let secs = hour dt * 3600 + minute dt * 60 + second dt + delta_seconds;
               ordinal = toordinal dt + delta_days + secs div 86400;
               sod = secs mod 86400
           in if 0 < ordinal \<and> ordinal \<le> MAXORDINAL
              then (let (y, m, d) = fromordinal ordinal
                    in Some (dt\<lparr>year := y, month := m, day := d, hour := sod div 3600,
                               minute := (sod mod 3600) div 60, second := sod mod 60\<rparr>))
              else None)"

definition START_DATE :: datetime where
  "START_DATE = \<lparr>year = 2015, month = 1, day = 1, hour = 0, minute = 0, second = 0,
                  microsecond = 0\<rparr>"

section \<open>Rendering with strftime\<close>

text \<open>
  Only the six directives the module uses are interpreted: \<^verbatim>\<open>%H %M %S %m %d\<close> as two
  digits and \<^verbatim>\<open>%Y\<close> as four, zero padded, as the library reference documents them. Every
  other character of the format is copied. For a year below 1000 the padding of \<^verbatim>\<open>%Y\<close> is
  left to the platform's C library (glibc does not pad), so the model speaks for the code
  only from the year 1000 on; the module's base date is in 2015.
\<close>

definition digit_char :: "nat \<Rightarrow> char" where
  "digit_char d = ''0123456789'' ! (d mod 10)"

function decimal :: "nat \<Rightarrow> string" where
  "decimal n = (if n < 10 then [digit_char n] else decimal (n div 10) @ [digit_char (n mod 10)])"
  by pat_completeness auto
termination
  by (relation "measure (\<lambda>n. n)") auto

declare decimal.simps [simp del]

definition zero_pad :: "nat \<Rightarrow> int \<Rightarrow> string" where
  "zero_pad w n = (let s = decimal (nat n) in replicate (w - length s) (CHR ''0'') @ s)"

definition directive :: "datetime \<Rightarrow> char \<Rightarrow> string" where
  "directive dt c =
     (if c = CHR ''H'' then zero_pad 2 (hour dt)
      else if c = CHR ''M'' then zero_pad 2 (minute dt)
      else if c = CHR ''S'' then zero_pad 2 (second dt)
      else if c = CHR ''Y'' then zero_pad 4 (year dt)
      else if c = CHR ''m'' then zero_pad 2 (month dt)
      else if c = CHR ''d'' then zero_pad 2 (day dt)
      else [CHR ''%'', c])"

fun strftime :: "datetime \<Rightarrow> string \<Rightarrow> string" where
  "strftime dt [] = []"
| "strftime dt [c] = [c]"
| "strftime dt (c # d # fmt) =
     (if c = CHR ''%'' then directive dt d @ strftime dt fmt else c # strftime dt (d # fmt))"

section \<open>The time-window calculator\<close>

text \<open>
  \<^verbatim>\<open>get_sample_date_range(sample_index, start_date)\<close> computes four hour offsets, adds each
  to the base date and renders six strings. The embedding keeps the three stages apart
  under the names of the source's local variables, so that the offsets and the datetimes
  can be spoken about: \<open>sample_offsets\<close>, \<open>sample_times\<close> and the function itself.
\<close>

record hour_offsets =
  input_start_hour_offset :: int
  input_end_hour_offset :: int
  pred_start_hour_offset :: int
  pred_end_hour_offset :: int

definition sample_offsets :: "config \<Rightarrow> int \<Rightarrow> hour_offsets" where
  "sample_offsets cfg sample_index =
     (let pred_start = sample_index + SEQ_LEN cfg
      in \<lparr>input_start_hour_offset = sample_index,
          input_end_hour_offset = sample_index + SEQ_LEN cfg - 1,
          pred_start_hour_offset = pred_start,
          pred_end_hour_offset = pred_start + HORIZONS cfg - 1\<rparr>)"

record window_times =
  input_start_time :: datetime
  input_end_time :: datetime
  pred_start_time :: datetime
  pred_end_time :: datetime

definition sample_times :: "config \<Rightarrow> int \<Rightarrow> datetime \<Rightarrow> window_times option" where
  "sample_times cfg sample_index start_date =
     (let off = sample_offsets cfg sample_index
      in case add_hours start_date (input_start_hour_offset off) of
           None \<Rightarrow> None
         | Some t1 \<Rightarrow>
        (case add_hours start_date (input_end_hour_offset off) of
           None \<Rightarrow> None
         | Some t2 \<Rightarrow>
        (case add_hours start_date (pred_start_hour_offset off) of
           None \<Rightarrow> None
         | Some t3 \<Rightarrow>
        (case add_hours start_date (pred_end_hour_offset off) of
           None \<Rightarrow> None
         | Some t4 \<Rightarrow>
             Some \<lparr>input_start_time = t1, input_end_time = t2,
                   pred_start_time = t3, pred_end_time = t4\<rparr>))))"

record time_window =
  inputStart :: string
  inputEnd :: string
  predStart :: string
  predEnd :: string
  date :: string
  full_start_date :: string

definition render_window :: "window_times \<Rightarrow> time_window" where
  "render_window ts =
     \<lparr>inputStart = strftime (input_start_time ts) ''%H:%M:%S'',
      inputEnd = strftime (input_end_time ts) ''%H:%M:%S'',
      predStart = strftime (pred_start_time ts) ''%H:%M:%S'',
      predEnd = strftime (pred_end_time ts) ''%H:%M:%S'',
      date = strftime (input_start_time ts) ''%Y-%m-%d'',
      full_start_date = strftime (input_start_time ts) ''%Y-%m-%d %H:%M:%S''\<rparr>"

definition get_sample_date_range :: "config \<Rightarrow> int \<Rightarrow> datetime \<Rightarrow> time_window option" where
  "get_sample_date_range cfg sample_index start_date =
     map_option render_window (sample_times cfg sample_index start_date)"

text \<open>The clock time that \<^verbatim>\<open>%H:%M:%S\<close> renders, in seconds after midnight.\<close>

definition clock_seconds :: "datetime \<Rightarrow> int" where
  "clock_seconds dt = hour dt * 3600 + minute dt * 60 + second dt"

section \<open>Python values and the \<^verbatim>\<open>float\<close> conversion\<close>

text \<open>
  \<^verbatim>\<open>request.json\<close> yields a value decoded from JSON: \<^verbatim>\<open>None\<close>, a bool, an unbounded int, a
  double, a string, a list or a dict. A dict is given by the members of the JSON object in
  the order of the document; when a key is repeated the decoder keeps its last value, so a
  key is looked up from the end of the list. Strings are lists of code points below 256.
\<close>

datatype pyfloat = Finite rat | PosInf | NegInf | NaN

datatype pyval =
    PNone
  | PBool bool
  | PInt int
  | PFloat pyfloat
  | PStr string
  | PList "pyval list"
  | PDict "(string \<times> pyval) list"

text \<open>
  An instance of a subclass of \<^verbatim>\<open>Exception\<close>, which is what \<^verbatim>\<open>except Exception as e\<close>
  catches: its class name and the text that \<^verbatim>\<open>f"{e}"\<close> renders.
\<close>

datatype exception = Exception (exc_class: string) (exc_str: string)

fun type_name :: "pyval \<Rightarrow> string" where
  "type_name PNone = ''NoneType''"
| "type_name (PBool b) = ''bool''"
| "type_name (PInt i) = ''int''"
| "type_name (PFloat x) = ''float''"
| "type_name (PStr s) = ''str''"
| "type_name (PList vs) = ''list''"
| "type_name (PDict kvs) = ''dict''"

definition quoted :: "string \<Rightarrow> string" where
  "quoted s = CHR 0x27 # s @ [CHR 0x27]"

text \<open>
  \<^verbatim>\<open>data.get(k)\<close>: the value under the key, \<^verbatim>\<open>None\<close> when a dict has no such key, and an
  \<^verbatim>\<open>AttributeError\<close> when the decoded body is not a dict.
\<close>

definition field_value :: "(string \<times> pyval) list \<Rightarrow> string \<Rightarrow> pyval" where
  "field_value kvs k = (case map_of (rev kvs) k of None \<Rightarrow> PNone | Some v \<Rightarrow> v)"

fun dict_get :: "pyval \<Rightarrow> string \<Rightarrow> exception + pyval" where
  "dict_get (PDict kvs) k = Inr (field_value kvs k)"
| "dict_get v k =
     Inl (Exception ''AttributeError''
            (quoted (type_name v) @ '' object has no attribute '' @ quoted ''get''))"

text \<open>
  \<^verbatim>\<open>float(s)\<close> on a string accepts the language reference's \<^verbatim>\<open>floatvalue\<close>: surrounding
  whitespace (tab to carriage return, the space, and of the code points from 128 on the
  next-line and no-break-space characters; the separators 28 to 31 are not stripped), an
  optional sign, then \<^verbatim>\<open>inf\<close>, \<^verbatim>\<open>infinity\<close> or \<^verbatim>\<open>nan\<close> in any case, or a
  decimal number with an optional fraction and exponent. An underscore may stand only
  between two digits.
\<close>

definition is_space :: "char \<Rightarrow> bool" where
  "is_space c =
     (let n = (of_char c :: nat)
      in (9 \<le> n \<and> n \<le> 13) \<or> n = 32 \<or> n = 133 \<or> n = 160)"

definition is_digit :: "char \<Rightarrow> bool" where
  "is_digit c = (let n = (of_char c :: nat) in 48 \<le> n \<and> n \<le> 57)"

definition strip :: "string \<Rightarrow> string" where
  "strip s = rev (dropWhile is_space (rev (dropWhile is_space s)))"

fun underscores_ok :: "char \<Rightarrow> string \<Rightarrow> bool" where
  "underscores_ok prev [] = (prev \<noteq> CHR ''_'')"
| "underscores_ok prev (c # cs) =
     (if c = CHR ''_'' then is_digit prev \<and> underscores_ok c cs
      else if prev = CHR ''_'' then is_digit c \<and> underscores_ok c cs
      else underscores_ok c cs)"

definition lower :: "char \<Rightarrow> char" where
  "lower c = (let n = (of_char c :: nat) in if 65 \<le> n \<and> n \<le> 90 then char_of (n + 32) else c)"

definition drop_sign :: "string \<Rightarrow> string" where
  "drop_sign s =
     (case s of [] \<Rightarrow> [] | c # cs \<Rightarrow> if c = CHR ''+'' \<or> c = CHR ''-'' then cs else s)"

definition exponent_ok :: "string \<Rightarrow> bool" where
  "exponent_ok s =
     (case s of
        [] \<Rightarrow> True
      | c # cs \<Rightarrow>
          (c = CHR ''e'' \<or> c = CHR ''E'') \<and> drop_sign cs \<noteq> []
          \<and> list_all is_digit (drop_sign cs))"

definition decimal_literal :: "string \<Rightarrow> bool" where
  "decimal_literal s =
     (let int_part = takeWhile is_digit s; r = dropWhile is_digit s
      in case r of
           [] \<Rightarrow> int_part \<noteq> []
         | c # cs \<Rightarrow>
             if c = CHR ''.''
             then \<not> (int_part = [] \<and> takeWhile is_digit cs = [])
                  \<and> exponent_ok (dropWhile is_digit cs)
             else int_part \<noteq> [] \<and> exponent_ok r)"

definition float_literal :: "string \<Rightarrow> bool" where
  "float_literal s =
     (underscores_ok (CHR 0x00) s \<and>
      (let body = drop_sign (strip (filter (\<lambda>c. c \<noteq> CHR ''_'') s)); name = map lower body
       in name = ''inf'' \<or> name = ''infinity'' \<or> name = ''nan'' \<or> decimal_literal body))"

text \<open>
  \<^verbatim>\<open>repr\<close> of a string, which the \<^verbatim>\<open>ValueError\<close> of \<^verbatim>\<open>float\<close> quotes: single quotes unless
  the string has a single quote and no double quote; backslash, the quote, tab, newline
  and return escaped; every other unprintable code point as \<^verbatim>\<open>\xNN\<close>.
\<close>

definition hex_digit :: "nat \<Rightarrow> char" where
  "hex_digit d = ''0123456789abcdef'' ! (d mod 16)"

definition repr_char :: "char \<Rightarrow> char \<Rightarrow> string" where
  "repr_char q c =
     (let n = (of_char c :: nat)
      in if c = CHR 0x5C then [CHR 0x5C, CHR 0x5C]
         else if c = q then [CHR 0x5C, q]
         else if n = 9 then [CHR 0x5C, CHR ''t'']
         else if n = 10 then [CHR 0x5C, CHR ''n'']
         else if n = 13 then [CHR 0x5C, CHR ''r'']
         else if n < 32 \<or> (127 \<le> n \<and> n \<le> 160) \<or> n = 173
         then [CHR 0x5C, CHR ''x'', hex_digit (n div 16), hex_digit (n mod 16)]
         else [c])"

definition py_repr :: "string \<Rightarrow> string" where
  "py_repr s =
     (let q = (if CHR 0x27 \<in> set s \<and> CHR 0x22 \<notin> set s then CHR 0x22 else CHR 0x27)
      in q # concat (map (repr_char q) s) @ [q])"

text \<open>
  \<^verbatim>\<open>float(v)\<close> returns a double or raises. The handler binds the double to \<^verbatim>\<open>lat_min\<close> or
  \<^verbatim>\<open>lon_min\<close> and never reads it again, so the model keeps only whether the conversion
  returned (\<open>Inr ()\<close>) and, when it raised, the exception. An int converts when it rounds
  to a finite double, that is below \<open>2^1024 - 2^970\<close> in magnitude. The texts of the
  exceptions are those of CPython 3.10 and later.
\<close>

definition FLOAT_LIMIT :: int where
  "FLOAT_LIMIT = 2 ^ 1024 - 2 ^ 970"

fun py_float :: "pyval \<Rightarrow> exception + unit" where
  "py_float (PBool b) = Inr ()"
| "py_float (PInt i) =
     (if \<bar>i\<bar> < FLOAT_LIMIT then Inr ()
      else Inl (Exception ''OverflowError'' ''int too large to convert to float''))"
| "py_float (PFloat x) = Inr ()"
| "py_float (PStr s) =
     (if float_literal s then Inr ()
      else Inl (Exception ''ValueError'' (''could not convert string to float: '' @ py_repr s)))"
| "py_float v =
     Inl (Exception ''TypeError''
            (''float() argument must be a string or a real number, not ''
             @ quoted (type_name v)))"

section \<open>The prediction request handler\<close>

text \<open>
  A request is what evaluating \<^verbatim>\<open>request.json\<close> gives: the decoded body, or the exception
  Flask raises when the body is not JSON. The loaded model is a function from the input
  tensor to the batch of predictions, or to the exception \<^verbatim>\<open>model.predict\<close> raises;
  \<open>None\<close> is the module's \<^verbatim>\<open>model = None\<close> after a failed load. The draws of
  \<^verbatim>\<open>np.random.rand\<close> are an argument of the handler.

  The handler's calls into its environment are recorded in a trace, in order: reading the
  body, each \<^verbatim>\<open>float\<close> conversion with its argument, and each \<^verbatim>\<open>model.predict\<close> call
  with its tensor.
\<close>

type_synonym request = "exception + pyval"

datatype 'x tensor = Tensor (shape: "int list") (entries: "'x list")

type_synonym ('x, 'p) backend = "'x tensor \<Rightarrow> exception + 'p list"

datatype 'x event = GetJson | ToFloat pyval | Predict "'x tensor"

datatype 'p body = ErrorBody string | ResultBody 'p time_window

datatype 'p outcome = Response "'p body" nat | Uncaught

text \<open>
  The first \<^verbatim>\<open>try\<close> block. Python evaluates \<^verbatim>\<open>request.json\<close>, then
  \<^verbatim>\<open>float(data.get('latMin'))\<close>, then \<^verbatim>\<open>float(data.get('lonMin'))\<close>, and leaves the block at
  the first exception. Nothing reads \<^verbatim>\<open>latMax\<close> or \<^verbatim>\<open>lonMax\<close>.
\<close>

definition read_bounds :: "request \<Rightarrow> 'x event list \<times> (exception + unit \<times> unit)" where
  "read_bounds req =
     (case req of
        Inl e \<Rightarrow> ([GetJson], Inl e)
      | Inr data \<Rightarrow>
     (case dict_get data ''latMin'' of
        Inl e \<Rightarrow> ([GetJson], Inl e)
      | Inr a \<Rightarrow>
     (case py_float a of
        Inl e \<Rightarrow> ([GetJson, ToFloat a], Inl e)
      | Inr lat_min \<Rightarrow>
     (case dict_get data ''lonMin'' of
        Inl e \<Rightarrow> ([GetJson, ToFloat a], Inl e)
      | Inr b \<Rightarrow>
     (case py_float b of
        Inl e \<Rightarrow> ([GetJson, ToFloat a, ToFloat b], Inl e)
      | Inr lon_min \<Rightarrow> ([GetJson, ToFloat a, ToFloat b], Inr (lat_min, lon_min)))))))"

text \<open>\<^verbatim>\<open>np.random.rand(1, SEQ_LEN, PATCH_H, PATCH_W, CHANNELS)\<close> with the given draws.\<close>

definition random_input :: "config \<Rightarrow> 'x list \<Rightarrow> 'x tensor" where
  "random_input cfg noise =
     Tensor [1, SEQ_LEN cfg, PATCH_H cfg, PATCH_W cfg, CHANNELS cfg] noise"

text \<open>
  The second \<^verbatim>\<open>try\<close> block: \<^verbatim>\<open>model.predict(input_tensor)\<close>, then the first element of the
  batch as a list. Indexing an empty batch raises \<^verbatim>\<open>IndexError\<close> inside the block.
\<close>

definition run_inference :: "('x, 'p) backend \<Rightarrow> 'x tensor \<Rightarrow> exception + 'p" where
  "run_inference m input_tensor =
     (case m input_tensor of
        Inl e \<Rightarrow> Inl e
      | Inr prediction_output \<Rightarrow>
          (case prediction_output of
             [] \<Rightarrow> Inl (Exception ''IndexError''
                          ''index 0 is out of bounds for axis 0 with size 0'')
           | p # rest \<Rightarrow> Inr p))"

text \<open>
  \<^verbatim>\<open>predict()\<close>. \<^verbatim>\<open>get_sample_date_range\<close> is called outside both \<^verbatim>\<open>try\<close> blocks, so an
  exception of it would leave the handler uncaught (\<open>Uncaught\<close>); with the module's
  constants it returns.
\<close>

definition predict ::
  "('x, 'p) backend option \<Rightarrow> 'x list \<Rightarrow> request \<Rightarrow> 'x event list \<times> 'p outcome" where
  "predict model noise req =
     (case model of
        None \<Rightarrow> ([], Response (ErrorBody ''Model failed to load on server startup.'') 500)
      | Some m \<Rightarrow>
     (case read_bounds req of
        (tr, Inl e) \<Rightarrow>
          (tr, Response (ErrorBody (''Invalid input coordinates: '' @ exc_str e)) 400)
      | (tr, Inr bounds) \<Rightarrow>
     (case get_sample_date_range module_config FIXED_SAMPLE_INDEX START_DATE of
        None \<Rightarrow> (tr, Uncaught)
      | Some time_details \<Rightarrow>
     (let input_tensor = random_input module_config noise
      in case run_inference m input_tensor of
           Inl e \<Rightarrow>
             (tr @ [Predict input_tensor],
              Response (ErrorBody (''Model inference failed: '' @ exc_str e)) 500)
         | Inr prediction_list \<Rightarrow>
             (tr @ [Predict input_tensor],
              Response (ResultBody prediction_list time_details) 200)))))"

section \<open>Observations on traces, outcomes and requests\<close>

fun model_calls :: "'x event list \<Rightarrow> 'x tensor list" where
  "model_calls [] = []"
| "model_calls (Predict t # evs) = t # model_calls evs"
| "model_calls (ev # evs) = model_calls evs"

fun float_calls :: "'x event list \<Rightarrow> pyval list" where
  "float_calls [] = []"
| "float_calls (ToFloat v # evs) = v # float_calls evs"
| "float_calls (ev # evs) = float_calls evs"

fun status_code :: "'p outcome \<Rightarrow> nat option" where
  "status_code (Response b s) = Some s"
| "status_code Uncaught = None"

fun error_text :: "'p outcome \<Rightarrow> string option" where
  "error_text (Response (ErrorBody msg) s) = Some msg"
| "error_text out = None"

fun time_details_of :: "'p outcome \<Rightarrow> time_window option" where
  "time_details_of (Response (ResultBody p td) s) = Some td"
| "time_details_of out = None"

text \<open>
  The value a request carries under a field, if it has one, and whether \<^verbatim>\<open>float\<close> accepts
  it. A field is unparseable when it is absent or \<^verbatim>\<open>float\<close> raises on its value.
\<close>

fun bound_of :: "request \<Rightarrow> string \<Rightarrow> pyval option" where
  "bound_of (Inr (PDict kvs)) k = map_of (rev kvs) k"
| "bound_of req k = None"

definition parseable :: "request \<Rightarrow> string \<Rightarrow> bool" where
  "parseable req k = (case bound_of req k of None \<Rightarrow> False | Some v \<Rightarrow> py_float v = Inr ())"

text \<open>A JSON number, as the decoder delivers it: an int or a double.\<close>

fun is_number :: "pyval \<Rightarrow> bool" where
  "is_number (PInt i) = True"
| "is_number (PFloat x) = True"
| "is_number v = False"

text \<open>\<open>contains s sub\<close>: \<open>sub\<close> occurs in \<open>s\<close> as a contiguous substring.\<close>

fun contains :: "string \<Rightarrow> string \<Rightarrow> bool" where
  "contains [] sub = (sub = [])"
| "contains (c # s) sub = (take (length sub) (c # s) = sub \<or> contains s sub)"


definition names_field :: "'p outcome \<Rightarrow> string \<Rightarrow> bool" where
  "names_field out k = (case error_text out of None \<Rightarrow> False | Some msg \<Rightarrow> contains msg k)"

section \<open>Sample backends and requests\<close>

definition sample_backend :: "(int, int list) backend" where
  "sample_backend t = Inr [entries t]"

definition failing_backend :: "(int, int list) backend" where
  "failing_backend t = Inl (Exception ''RuntimeError'' ''out of memory'')"

definition request_full :: request where
  "request_full =
     Inr (PDict [(''latMin'', PFloat (Finite (57 / 2))), (''lonMin'', PInt 77),
                 (''latMax'', PFloat (Finite 29)), (''lonMax'', PFloat (Finite (155 / 2)))])"

definition request_other_box :: request where
  "request_other_box =
     Inr (PDict [(''latMin'', PInt 10), (''lonMin'', PStr ''20.5''),
                 (''latMax'', PInt 11), (''lonMax'', PInt 21)])"

definition request_no_latMin :: request where
  "request_no_latMin =
     Inr (PDict [(''lonMin'', PInt 77), (''latMax'', PFloat (Finite 29)),
                 (''lonMax'', PFloat (Finite (155 / 2)))])"

definition request_no_lonMin :: request where
  "request_no_lonMin =
     Inr (PDict [(''latMin'', PFloat (Finite (57 / 2))), (''latMax'', PFloat (Finite 29)),
                 (''lonMax'', PFloat (Finite (155 / 2)))])"

definition request_huge_latMin :: request where
  "request_huge_latMin =
     Inr (PDict [(''latMin'', PInt (2 ^ 1024)), (''lonMin'', PInt 77),
                 (''latMax'', PInt 30), (''lonMax'', PInt 78)])"

definition request_bad_max :: request where
  "request_bad_max =
     Inr (PDict [(''latMin'', PFloat (Finite (57 / 2))), (''lonMin'', PInt 77),
                 (''lonMax'', PStr ''abc'')])"

section \<open>Evaluation and auxiliary lemmas\<close>

lemma toordinal_START_DATE: "toordinal START_DATE = 735599"
  by (simp add: toordinal_def START_DATE_def days_before_year_def days_before_month.simps)

lemma fromordinal_values:
  "fromordinal 735599 = (2015, 1, 1)"
  "fromordinal 735600 = (2015, 1, 2)"
  "fromordinal 735601 = (2015, 1, 3)"
  by (simp_all add: fromordinal_def year_of_ordinal_def cycles_def capped_cycles_def
        month_day_of.simps days_in_month_def)

lemma add_hours_START_DATE:
  "add_hours START_DATE 17 = Some (START_DATE\<lparr>hour := 17\<rparr>)"
  "add_hours START_DATE 22 = Some (START_DATE\<lparr>hour := 22\<rparr>)"
  "add_hours START_DATE 23 = Some (START_DATE\<lparr>hour := 23\<rparr>)"
  "add_hours START_DATE 25 = Some (START_DATE\<lparr>day := 2, hour := 1\<rparr>)"
  "add_hours START_DATE 49 = Some (START_DATE\<lparr>day := 3, hour := 1\<rparr>)"
  by (simp_all add: add_hours_def toordinal_START_DATE MAX_DELTA_DAYS_def MAXORDINAL_def
        fromordinal_values)
     (simp_all add: START_DATE_def fromordinal_values)

lemma decimal_small:
  "decimal 0 = ''0''" "decimal 1 = ''1''" "decimal (Suc 0) = ''1''" "decimal 2 = ''2''"
  "decimal 17 = ''17''" "decimal 22 = ''22''" "decimal 23 = ''23''" "decimal 2015 = ''2015''"
  by (simp_all add: decimal.simps digit_char_def)

lemma sample_times_fixed:
  "sample_times module_config 17 START_DATE = Some
     \<lparr>input_start_time = START_DATE\<lparr>hour := 17\<rparr>,
      input_end_time = START_DATE\<lparr>hour := 22\<rparr>,
      pred_start_time = START_DATE\<lparr>hour := 23\<rparr>,
      pred_end_time = START_DATE\<lparr>day := 2, hour := 1\<rparr>\<rparr>"
  by (simp add: sample_times_def sample_offsets_def module_config_def add_hours_START_DATE)

lemma sample_times_long_horizon:
  "sample_times (module_config\<lparr>HORIZONS := 27\<rparr>) 17 START_DATE = Some
     \<lparr>input_start_time = START_DATE\<lparr>hour := 17\<rparr>,
      input_end_time = START_DATE\<lparr>hour := 22\<rparr>,
      pred_start_time = START_DATE\<lparr>hour := 23\<rparr>,
      pred_end_time = START_DATE\<lparr>day := 3, hour := 1\<rparr>\<rparr>"
  by (simp add: sample_times_def sample_offsets_def module_config_def add_hours_START_DATE)

lemma render_fixed:
  "render_window
     \<lparr>input_start_time = START_DATE\<lparr>hour := 17\<rparr>,
      input_end_time = START_DATE\<lparr>hour := 22\<rparr>,
      pred_start_time = START_DATE\<lparr>hour := 23\<rparr>,
      pred_end_time = START_DATE\<lparr>day := d, hour := 1\<rparr>\<rparr>
   = \<lparr>inputStart = ''17:00:00'', inputEnd = ''22:00:00'', predStart = ''23:00:00'',
      predEnd = ''01:00:00'', date = ''2015-01-01'',
      full_start_date = ''2015-01-01 17:00:00''\<rparr>"
  by (simp add: render_window_def directive_def zero_pad_def decimal_small START_DATE_def)

lemma fixed_time_details:
  "get_sample_date_range module_config FIXED_SAMPLE_INDEX START_DATE = Some
     \<lparr>inputStart = ''17:00:00'', inputEnd = ''22:00:00'', predStart = ''23:00:00'',
      predEnd = ''01:00:00'', date = ''2015-01-01'',
      full_start_date = ''2015-01-01 17:00:00''\<rparr>"
  by (simp add: get_sample_date_range_def FIXED_SAMPLE_INDEX_def sample_times_fixed
        render_fixed)

text \<open>
  The information separators are not whitespace to \<^verbatim>\<open>float\<close>: the string of code point 28
  followed by the digit 1 is rejected, while a trailing no-break space is stripped.
\<close>

lemma float_rejects_separator:
  "py_float (PStr [CHR 0x1C, CHR ''1''])
     = Inl (Exception ''ValueError''
             (''could not convert string to float: ''
              @ [CHR 0x27, CHR 0x5C, CHR ''x'', CHR ''1'', CHR ''c'', CHR ''1'', CHR 0x27]))"
  by (simp add: float_literal_def strip_def is_space_def drop_sign_def lower_def
        decimal_literal_def is_digit_def py_repr_def repr_char_def hex_digit_def Let_def)

lemma float_strips_no_break_space: "py_float (PStr [CHR ''1'', CHR 0xA0]) = Inr ()"
  by (simp add: float_literal_def strip_def is_space_def drop_sign_def lower_def
        decimal_literal_def exponent_ok_def is_digit_def)

lemma parseableD:
  assumes "parseable req k"
  obtains kvs v where "req = Inr (PDict kvs)" and "map_of (rev kvs) k = Some v"
    and "py_float v = Inr ()"
proof (cases "bound_of req k")
  case None
  with assms show ?thesis by (simp add: parseable_def)
next
  case (Some v)
  then obtain kvs where "req = Inr (PDict kvs)" "map_of (rev kvs) k = Some v"
    by (cases "(req, k)" rule: bound_of.cases) auto
  moreover from assms Some have "py_float v = Inr ()" by (simp add: parseable_def)
  ultimately show ?thesis by (rule that)
qed

lemma read_bounds_valid:
  assumes "parseable req ''latMin''" and "parseable req ''lonMin''"
  shows "\<exists>a b. bound_of req ''latMin'' = Some a \<and> bound_of req ''lonMin'' = Some b
           \<and> read_bounds req = ([GetJson, ToFloat a, ToFloat b], Inr ((), ()))"
proof -
  from assms(1) obtain kvs a where r: "req = Inr (PDict kvs)"
    and a: "map_of (rev kvs) ''latMin'' = Some a" "py_float a = Inr ()"
    by (rule parseableD)
  from assms(2) r obtain b where b: "map_of (rev kvs) ''lonMin'' = Some b" "py_float b = Inr ()"
    by (auto elim: parseableD)
  from r a b show ?thesis by (simp add: read_bounds_def field_value_def)
qed

lemma py_float_PNone: "\<exists>e. py_float PNone = Inl e"
  by simp

lemma read_bounds_invalid_lat:
  assumes "\<not> parseable req ''latMin''"
  shows "\<exists>tr e. read_bounds req = (tr, Inl e) \<and> model_calls tr = []"
proof (cases req)
  case (Inl e)
  then show ?thesis by (simp add: read_bounds_def)
next
  case (Inr data)
  show ?thesis
  proof (cases "dict_get data ''latMin''")
    case (Inl e)
    with Inr show ?thesis by (simp add: read_bounds_def)
  next
    case get: (Inr a)
    then obtain kvs where d: "data = PDict kvs" by (cases data) auto
    have "py_float a \<noteq> Inr ()"
    proof (cases "map_of (rev kvs) ''latMin''")
      case None
      with get d show ?thesis by (auto simp: field_value_def)
    next
      case (Some v)
      with get d assms Inr show ?thesis by (auto simp: parseable_def field_value_def)
    qed
    then obtain e where "py_float a = Inl e" by (cases "py_float a") auto
    with Inr get show ?thesis by (simp add: read_bounds_def)
  qed
qed


lemma dict_get_dict:
  assumes "dict_get data k = Inr v"
  obtains kvs where "data = PDict kvs"
  using assms by (cases data) auto

lemma read_bounds_first_exception:
  assumes "read_bounds req = (tr, Inl e)"
  shows "req = Inl e
      \<or> (\<exists>data. req = Inr data \<and> dict_get data ''latMin'' = Inl e)
      \<or> (\<exists>kvs. req = Inr (PDict kvs) \<and> py_float (field_value kvs ''latMin'') = Inl e)
      \<or> (\<exists>kvs. req = Inr (PDict kvs) \<and> py_float (field_value kvs ''latMin'') = Inr ()
               \<and> py_float (field_value kvs ''lonMin'') = Inl e)"
proof (cases req)
  case (Inl e')
  with assms show ?thesis by (simp add: read_bounds_def)
next
  case (Inr data)
  show ?thesis
  proof (cases "dict_get data ''latMin''")
    case (Inl e')
    with assms Inr show ?thesis by (simp add: read_bounds_def)
  next
    case get: (Inr a)
    then obtain kvs where d: "data = PDict kvs" by (rule dict_get_dict)
    show ?thesis
    proof (cases "py_float (field_value kvs ''latMin'')")
      case (Inl e')
      with assms Inr d show ?thesis by (simp add: read_bounds_def)
    next
      case lat: (Inr u)
      with assms Inr d have "py_float (field_value kvs ''lonMin'') = Inl e"
        by (cases "py_float (field_value kvs ''lonMin'')") (simp_all add: read_bounds_def)
      with Inr d lat show ?thesis by simp
    qed
  qed
qed

lemma read_bounds_accepts:
  assumes "read_bounds req = (tr, Inr u)"
  shows "parseable req ''latMin'' \<and> parseable req ''lonMin''"
proof (cases req)
  case (Inl e)
  with assms show ?thesis by (simp add: read_bounds_def)
next
  case (Inr data)
  show ?thesis
  proof (cases data)
    case (PDict kvs)
    with assms Inr show ?thesis
      by (auto simp: read_bounds_def parseable_def field_value_def
               split: sum.splits option.splits)
  qed (use assms Inr in \<open>simp_all add: read_bounds_def\<close>)
qed

lemma contains_refl: "contains s s"
  by (cases s) simp_all

lemma contains_append: "contains (p @ s) s"
  by (induction p) (simp_all add: contains_refl)

lemma predict_valid:
  fixes m :: "('x, 'p) backend"
  assumes "parseable req ''latMin''" and "parseable req ''lonMin''"
  shows "\<exists>a b. bound_of req ''latMin'' = Some a \<and> bound_of req ''lonMin'' = Some b
     \<and> predict (Some m) noise req =
         ([GetJson, ToFloat a, ToFloat b, Predict (random_input module_config noise)],
          case run_inference m (random_input module_config noise) of
            Inl e \<Rightarrow> Response (ErrorBody (''Model inference failed: '' @ exc_str e)) 500
          | Inr p \<Rightarrow>
              Response (ResultBody p
                \<lparr>inputStart = ''17:00:00'', inputEnd = ''22:00:00'',
                 predStart = ''23:00:00'', predEnd = ''01:00:00'', date = ''2015-01-01'',
                 full_start_date = ''2015-01-01 17:00:00''\<rparr>) 200)"
proof -
  from read_bounds_valid [OF assms] obtain a b where
    ab: "bound_of req ''latMin'' = Some a" "bound_of req ''lonMin'' = Some b"
    and rb: "(read_bounds req :: 'x event list \<times> _) = ([GetJson, ToFloat a, ToFloat b], Inr ((), ()))"
    by blast
  have "predict (Some m) noise req =
         ([GetJson, ToFloat a, ToFloat b, Predict (random_input module_config noise)],
          case run_inference m (random_input module_config noise) of
            Inl e \<Rightarrow> Response (ErrorBody (''Model inference failed: '' @ exc_str e)) 500
          | Inr p \<Rightarrow>
              Response (ResultBody p
                \<lparr>inputStart = ''17:00:00'', inputEnd = ''22:00:00'',
                 predStart = ''23:00:00'', predEnd = ''01:00:00'', date = ''2015-01-01'',
                 full_start_date = ''2015-01-01 17:00:00''\<rparr>) 200)"
    by (simp add: predict_def rb fixed_time_details Let_def split: sum.splits)
  with ab show ?thesis by blast
qed

lemma predict_time_details:
  assumes "time_details_of (snd (predict model noise req)) = Some td"
  shows "td = \<lparr>inputStart = ''17:00:00'', inputEnd = ''22:00:00'',
                 predStart = ''23:00:00'', predEnd = ''01:00:00'', date = ''2015-01-01'',
                 full_start_date = ''2015-01-01 17:00:00''\<rparr>"
  using assms
  by (auto simp: predict_def fixed_time_details Let_def
           split: option.splits prod.splits sum.splits)

lemma predict_responds: "snd (predict model noise req) \<noteq> Uncaught"
  by (auto simp: predict_def fixed_time_details Let_def
           split: option.splits prod.splits sum.splits)

section \<open>Properties of the time-window calculator\<close>

text \<open>
  C1. For every sample index at least 0, sequence length at least 1 and horizon at least
  1, the four hour offsets that \<^verbatim>\<open>get_sample_date_range\<close> computes satisfy: input end minus
  input start is the sequence length minus 1, prediction end minus prediction start is the
  horizon minus 1, the prediction starts one hour after the input ends, and so
  input start \<open>\<le>\<close> input end \<open><\<close> prediction start \<open>\<le>\<close> prediction end.
\<close>

theorem sample_offsets_spacing:
  assumes "0 \<le> sample_index" and "1 \<le> SEQ_LEN cfg" and "1 \<le> HORIZONS cfg"
  shows "input_end_hour_offset (sample_offsets cfg sample_index)
           - input_start_hour_offset (sample_offsets cfg sample_index) = SEQ_LEN cfg - 1
       \<and> pred_end_hour_offset (sample_offsets cfg sample_index)
           - pred_start_hour_offset (sample_offsets cfg sample_index) = HORIZONS cfg - 1
       \<and> pred_start_hour_offset (sample_offsets cfg sample_index)
           = input_end_hour_offset (sample_offsets cfg sample_index) + 1
       \<and> input_start_hour_offset (sample_offsets cfg sample_index)
           \<le> input_end_hour_offset (sample_offsets cfg sample_index)
       \<and> input_end_hour_offset (sample_offsets cfg sample_index)
           < pred_start_hour_offset (sample_offsets cfg sample_index)
       \<and> pred_start_hour_offset (sample_offsets cfg sample_index)
           \<le> pred_end_hour_offset (sample_offsets cfg sample_index)"
  using assms by (simp add: sample_offsets_def Let_def)

text \<open>Witness for C1: the module's constants and sample index 17 give 17, 22, 23, 25.\<close>

theorem sample_offsets_spacing_witness:
  "sample_offsets module_config 17 =
     \<lparr>input_start_hour_offset = 17, input_end_hour_offset = 22,
      pred_start_hour_offset = 23, pred_end_hour_offset = 25\<rparr>
   \<and> input_end_hour_offset (sample_offsets module_config 17)
       - input_start_hour_offset (sample_offsets module_config 17) = 5
   \<and> pred_end_hour_offset (sample_offsets module_config 17)
       - pred_start_hour_offset (sample_offsets module_config 17) = 2
   \<and> input_end_hour_offset (sample_offsets module_config 17)
       < pred_start_hour_offset (sample_offsets module_config 17)"
  using sample_offsets_spacing [of 17 module_config]
  by (simp add: module_config_def sample_offsets_def)

text \<open>
  C2, as the code has it. With base date 2015-01-01T00:00:00, sequence length 6 and horizon
  3, sample index 17 gives inputStart 17:00:00, inputEnd 22:00:00, predStart 23:00:00,
  predEnd 01:00:00, and the input window starts on the base day itself: date 2015-01-01
  and full_start_date 2015-01-01 17:00:00. Seventeen hours after midnight is the same
  day; only the prediction window's end falls on 2015-01-02.
\<close>

theorem sample_17_window:
  "get_sample_date_range module_config 17 START_DATE = Some
     \<lparr>inputStart = ''17:00:00'', inputEnd = ''22:00:00'', predStart = ''23:00:00'',
      predEnd = ''01:00:00'', date = ''2015-01-01'',
      full_start_date = ''2015-01-01 17:00:00''\<rparr>"
  using fixed_time_details by (simp add: FIXED_SAMPLE_INDEX_def)

text \<open>
  C2, as the claim states it, fails: the record for sample index 17 is not the one with
  date 2015-01-02 and full_start_date 2015-01-02 17:00:00.
\<close>

theorem sample_17_date_not_rolled_over:
  "get_sample_date_range module_config 17 START_DATE \<noteq> Some
     \<lparr>inputStart = ''17:00:00'', inputEnd = ''22:00:00'', predStart = ''23:00:00'',
      predEnd = ''01:00:00'', date = ''2015-01-02'',
      full_start_date = ''2015-01-02 17:00:00''\<rparr>"
  using fixed_time_details by (simp add: FIXED_SAMPLE_INDEX_def)

text \<open>
  C10. The record renders the prediction window only as times of day. For sample index
  17, sequence length 6, horizon 3 and base date 2015-01-01T00:00:00 the prediction window
  runs from 2015-01-01 23:00 to 2015-01-02 01:00: predStart is 23:00:00, predEnd is
  01:00:00, an earlier clock time than predStart although a later day. The day of
  predEnd cannot be read back from the record: with horizon 27 the window ends a day
  later, on 2015-01-03, and the record is the same.
\<close>

theorem pred_window_crosses_midnight:
  "map_option predStart (get_sample_date_range module_config 17 START_DATE)
     = Some ''23:00:00''
   \<and> map_option predEnd (get_sample_date_range module_config 17 START_DATE)
     = Some ''01:00:00''
   \<and> map_option pred_start_time (sample_times module_config 17 START_DATE)
     = Some (START_DATE\<lparr>hour := 23\<rparr>)
   \<and> map_option pred_end_time (sample_times module_config 17 START_DATE)
     = Some (START_DATE\<lparr>day := 2, hour := 1\<rparr>)
   \<and> clock_seconds (START_DATE\<lparr>day := 2, hour := 1\<rparr>)
     < clock_seconds (START_DATE\<lparr>hour := 23\<rparr>)
   \<and> toordinal (START_DATE\<lparr>hour := 23\<rparr>) < toordinal (START_DATE\<lparr>day := 2, hour := 1\<rparr>)
   \<and> get_sample_date_range (module_config\<lparr>HORIZONS := 27\<rparr>) 17 START_DATE
     = get_sample_date_range module_config 17 START_DATE
   \<and> map_option pred_end_time
        (sample_times (module_config\<lparr>HORIZONS := 27\<rparr>) 17 START_DATE)
     = Some (START_DATE\<lparr>day := 3, hour := 1\<rparr>)"
proof -
  have "get_sample_date_range (module_config\<lparr>HORIZONS := 27\<rparr>) 17 START_DATE
          = get_sample_date_range module_config 17 START_DATE"
    by (simp add: get_sample_date_range_def sample_times_fixed sample_times_long_horizon
          render_fixed)
  moreover have "clock_seconds (START_DATE\<lparr>day := 2, hour := 1\<rparr>)
                   < clock_seconds (START_DATE\<lparr>hour := 23\<rparr>)"
    by (simp add: clock_seconds_def START_DATE_def)
  moreover have "toordinal (START_DATE\<lparr>hour := 23\<rparr>)
                   < toordinal (START_DATE\<lparr>day := 2, hour := 1\<rparr>)"
    by (simp add: toordinal_def START_DATE_def)
  ultimately show ?thesis
    using fixed_time_details
    by (simp add: FIXED_SAMPLE_INDEX_def sample_times_fixed sample_times_long_horizon)
qed

section \<open>Properties of the request handler\<close>

text \<open>
  C3. When the model failed to load at start (\<^verbatim>\<open>model is None\<close>), every request, whatever
  its body, gets the same response: status 500 with the error
  \<^verbatim>\<open>Model failed to load on server startup.\<close> The handler reads no body, converts no bound
  and calls no model: its trace is empty.
\<close>

theorem predict_unavailable:
  "predict None noise req
     = ([], Response (ErrorBody ''Model failed to load on server startup.'') 500)
   \<and> float_calls (fst (predict None noise req)) = []
   \<and> model_calls (fst (predict None noise req)) = []"
  by (simp add: predict_def)

text \<open>
  C4. With the model loaded, every request whose \<^verbatim>\<open>latMin\<close> is absent or not accepted by
  \<^verbatim>\<open>float\<close> gets a status 400 response carrying an error string, and \<^verbatim>\<open>model.predict\<close> is
  not called for it.
\<close>

theorem predict_rejects_bad_latMin:
  fixes m :: "('x, 'p) backend"
  assumes "\<not> parseable req ''latMin''"
  shows "status_code (snd (predict (Some m) noise req)) = Some 400
       \<and> (\<exists>msg. error_text (snd (predict (Some m) noise req)) = Some msg)
       \<and> model_calls (fst (predict (Some m) noise req)) = []"
proof -
  from read_bounds_invalid_lat [OF assms] obtain tr e where
    "(read_bounds req :: 'x event list \<times> _) = (tr, Inl e)" "model_calls tr = []"
    by blast
  then show ?thesis by (simp add: predict_def)
qed

text \<open>
  Witness for C4: a body without \<^verbatim>\<open>latMin\<close>. \<^verbatim>\<open>data.get\<close> gives \<^verbatim>\<open>None\<close>, \<^verbatim>\<open>float(None)\<close>
  raises \<^verbatim>\<open>TypeError\<close>, and the handler answers 400 without calling the model.
\<close>

theorem predict_rejects_bad_latMin_witness:
  "\<not> parseable request_no_latMin ''latMin''
   \<and> predict (Some sample_backend) [1, 2, 3] request_no_latMin
     = ([GetJson, ToFloat PNone],
        Response (ErrorBody (''Invalid input coordinates: float() argument must be ''
                   @ ''a string or a real number, not '' @ quoted ''NoneType'')) 400)
   \<and> status_code (snd (predict (Some sample_backend) [1, 2, 3] request_no_latMin)) = Some 400
   \<and> model_calls (fst (predict (Some sample_backend) [1, 2, 3] request_no_latMin)) = []"
proof -
  have h: "\<not> parseable request_no_latMin ''latMin''"
    by (simp add: parseable_def request_no_latMin_def)
  have "predict (Some sample_backend) [1, 2, 3] request_no_latMin
     = ([GetJson, ToFloat PNone],
        Response (ErrorBody (''Invalid input coordinates: float() argument must be ''
                   @ ''a string or a real number, not '' @ quoted ''NoneType'')) 400)"
    by (simp add: predict_def read_bounds_def request_no_latMin_def field_value_def)
  with h predict_rejects_bad_latMin [OF h, of sample_backend "[1, 2, 3]"]
  show ?thesis by simp
qed

text \<open>
  C5, as the claim states it, fails. For a body without \<^verbatim>\<open>latMin\<close> the response is a
  400 whose error string does not contain the field's name, and it is the very response
  that a body without \<^verbatim>\<open>lonMin\<close> gets: the string cannot tell which field was missing.
\<close>

theorem error_does_not_name_field:
  "status_code (snd (predict (Some sample_backend) [1, 2, 3] request_no_latMin)) = Some 400
   \<and> \<not> names_field (snd (predict (Some sample_backend) [1, 2, 3] request_no_latMin)) ''latMin''
   \<and> snd (predict (Some sample_backend) [1, 2, 3] request_no_latMin)
     = snd (predict (Some sample_backend) [1, 2, 3] request_no_lonMin)"
  by (simp add: predict_def read_bounds_def request_no_latMin_def request_no_lonMin_def
        names_field_def quoted_def field_value_def)

text \<open>
  C5, as the code has it. With the model loaded, every request whose \<^verbatim>\<open>latMin\<close> or
  \<^verbatim>\<open>lonMin\<close> is absent or not accepted by \<^verbatim>\<open>float\<close> gets a status 400 response whose error
  string is \<^verbatim>\<open>Invalid input coordinates: \<close> followed by the text of the first exception
  raised, in the order of the source: by reading the JSON body; else by \<^verbatim>\<open>data.get\<close> on a
  body that is not a dict; else by \<^verbatim>\<open>float\<close> on the value of \<^verbatim>\<open>latMin\<close> (\<^verbatim>\<open>None\<close> when the
  field is absent); else by \<^verbatim>\<open>float\<close> on the value of \<^verbatim>\<open>lonMin\<close> (\<^verbatim>\<open>None\<close> when absent).
\<close>

theorem invalid_input_reports_exception:
  fixes m :: "('x, 'p) backend"
  assumes "\<not> parseable req ''latMin'' \<or> \<not> parseable req ''lonMin''"
  shows "\<exists>e. snd (predict (Some m) noise req)
               = Response (ErrorBody (''Invalid input coordinates: '' @ exc_str e)) 400
      \<and> (req = Inl e
          \<or> (\<exists>data. req = Inr data \<and> dict_get data ''latMin'' = Inl e)
          \<or> (\<exists>kvs. req = Inr (PDict kvs) \<and> py_float (field_value kvs ''latMin'') = Inl e)
          \<or> (\<exists>kvs. req = Inr (PDict kvs)
                   \<and> py_float (field_value kvs ''latMin'') = Inr ()
                   \<and> py_float (field_value kvs ''lonMin'') = Inl e))"
proof -
  obtain tr r where rb: "(read_bounds req :: 'x event list \<times> _) = (tr, r)"
    by (cases "read_bounds req :: 'x event list \<times> _") blast
  show ?thesis
  proof (cases r)
    case (Inl e)
    with rb have "req = Inl e
      \<or> (\<exists>data. req = Inr data \<and> dict_get data ''latMin'' = Inl e)
      \<or> (\<exists>kvs. req = Inr (PDict kvs) \<and> py_float (field_value kvs ''latMin'') = Inl e)
      \<or> (\<exists>kvs. req = Inr (PDict kvs) \<and> py_float (field_value kvs ''latMin'') = Inr ()
               \<and> py_float (field_value kvs ''lonMin'') = Inl e)"
      using read_bounds_first_exception [of req tr e] by simp
    moreover from rb Inl have "snd (predict (Some m) noise req)
        = Response (ErrorBody (''Invalid input coordinates: '' @ exc_str e)) 400"
      by (simp add: predict_def)
    ultimately show ?thesis by blast
  next
    case (Inr u)
    with rb have "parseable req ''latMin'' \<and> parseable req ''lonMin''"
      using read_bounds_accepts [of req tr u] by simp
    with assms show ?thesis by blast
  qed
qed

text \<open>
  Witness for C5 as amended: a body without \<^verbatim>\<open>lonMin\<close> whose \<^verbatim>\<open>latMin\<close> is accepted. The
  error string is the prefix followed by the text of the \<^verbatim>\<open>TypeError\<close> of \<^verbatim>\<open>float(None)\<close>.
\<close>

theorem invalid_input_reports_exception_witness:
  "\<not> parseable request_no_lonMin ''lonMin''
   \<and> py_float (field_value [(''latMin'', PFloat (Finite (57 / 2))),
                            (''latMax'', PFloat (Finite 29)),
                            (''lonMax'', PFloat (Finite (155 / 2)))] ''latMin'') = Inr ()
   \<and> py_float (field_value [(''latMin'', PFloat (Finite (57 / 2))),
                            (''latMax'', PFloat (Finite 29)),
                            (''lonMax'', PFloat (Finite (155 / 2)))] ''lonMin'')
     = Inl (Exception ''TypeError''
             (''float() argument must be a string or a real number, not ''
              @ quoted ''NoneType''))
   \<and> snd (predict (Some sample_backend) [1, 2, 3] request_no_lonMin)
     = Response (ErrorBody (''Invalid input coordinates: float() argument must be ''
                  @ ''a string or a real number, not '' @ quoted ''NoneType'')) 400"
proof -
  have h: "\<not> parseable request_no_lonMin ''latMin'' \<or> \<not> parseable request_no_lonMin ''lonMin''"
    by (simp add: parseable_def request_no_lonMin_def)
  have "snd (predict (Some sample_backend) [1, 2, 3] request_no_lonMin)
     = Response (ErrorBody (''Invalid input coordinates: float() argument must be ''
                  @ ''a string or a real number, not '' @ quoted ''NoneType'')) 400"
    by (simp add: predict_def read_bounds_def request_no_lonMin_def field_value_def)
  with invalid_input_reports_exception [OF h, of sample_backend "[1, 2, 3]"]
  show ?thesis by (simp add: parseable_def request_no_lonMin_def field_value_def)
qed

text \<open>
  C6. For every request whose \<^verbatim>\<open>latMin\<close> and \<^verbatim>\<open>lonMin\<close> are accepted, when
  \<^verbatim>\<open>model.predict\<close> raises an exception the handler answers with status 500 and the error
  \<^verbatim>\<open>Model inference failed: \<close> followed by the exception's text, which the error string
  therefore contains; the model was called exactly once, with the input tensor; the
  exception does not leave the handler, which returns a response; and the handler, which
  keeps no state, goes on answering: every later request to it, with the same model, gets
  a response again.
\<close>

theorem inference_failure_reported:
  fixes m :: "('x, 'p) backend"
  assumes "parseable req ''latMin''" and "parseable req ''lonMin''"
    and "m (random_input module_config noise) = Inl e"
  shows "snd (predict (Some m) noise req)
           = Response (ErrorBody (''Model inference failed: '' @ exc_str e)) 500
       \<and> contains (''Model inference failed: '' @ exc_str e) (exc_str e)
       \<and> model_calls (fst (predict (Some m) noise req)) = [random_input module_config noise]
       \<and> snd (predict (Some m) noise req) \<noteq> Uncaught
       \<and> (\<forall>noise' req'. \<exists>b s. snd (predict (Some m) noise' req') = Response b s)"
proof -
  from predict_valid [OF assms(1,2), of m noise] assms(3)
  have "snd (predict (Some m) noise req)
           = Response (ErrorBody (''Model inference failed: '' @ exc_str e)) 500"
    and "model_calls (fst (predict (Some m) noise req)) = [random_input module_config noise]"
    by (auto simp: run_inference_def)
  moreover have "contains (''Model inference failed: '' @ exc_str e) (exc_str e)"
    by (rule contains_append)
  moreover have "\<exists>b s. snd (predict (Some m) noise' req') = Response b s" for noise' req'
    using predict_responds [of "Some m" noise' req']
    by (cases "snd (predict (Some m) noise' req')") auto
  ultimately show ?thesis by simp
qed

text \<open>
  Witness for C6: a backend that always raises. A full request gets the 500 with the
  backend's message after one call; the request after it is still answered (a 400, since
  it lacks \<^verbatim>\<open>latMin\<close>).
\<close>

theorem inference_failure_reported_witness:
  "parseable request_full ''latMin'' \<and> parseable request_full ''lonMin''
   \<and> failing_backend (random_input module_config [1, 2, 3])
     = Inl (Exception ''RuntimeError'' ''out of memory'')
   \<and> snd (predict (Some failing_backend) [1, 2, 3] request_full)
     = Response (ErrorBody ''Model inference failed: out of memory'') 500
   \<and> model_calls (fst (predict (Some failing_backend) [1, 2, 3] request_full))
     = [Tensor [1, 6, 13, 13, 7] [1, 2, 3]]
   \<and> status_code (snd (predict (Some failing_backend) [4] request_no_latMin)) = Some 400"
proof -
  have h1: "parseable request_full ''latMin''" and h2: "parseable request_full ''lonMin''"
    by (simp_all add: parseable_def request_full_def FLOAT_LIMIT_def)
  have h3: "failing_backend (random_input module_config [1, 2, 3])
              = Inl (Exception ''RuntimeError'' ''out of memory'')"
    by (simp add: failing_backend_def)
  have "status_code (snd (predict (Some failing_backend) [4] request_no_latMin)) = Some 400"
    by (simp add: predict_def read_bounds_def request_no_latMin_def field_value_def)
  with h1 h2 h3
    inference_failure_reported [where m = failing_backend and noise = "[1, 2, 3]"
      and req = request_full, OF h1 h2 h3]
  show ?thesis by (simp add: random_input_def module_config_def)
qed

text \<open>
  C8. The \<^verbatim>\<open>time_details\<close> of a successful response do not depend on the request: any two
  successful responses, whatever the bounds, the model and the random input, carry the
  same record, the one that \<^verbatim>\<open>get_sample_date_range\<close> computes from the fixed sample index
  17 and the fixed base date.
\<close>

theorem time_details_independent_of_bounds:
  assumes "time_details_of (snd (predict model noise req)) = Some td"
    and "time_details_of (snd (predict model' noise' req')) = Some td'"
  shows "td = td'
       \<and> get_sample_date_range module_config FIXED_SAMPLE_INDEX START_DATE = Some td
       \<and> FIXED_SAMPLE_INDEX = 17"
  using predict_time_details [OF assms(1)] predict_time_details [OF assms(2)]
  by (simp add: fixed_time_details)
     (simp add: FIXED_SAMPLE_INDEX_def)

text \<open>
  Witness for C8: two requests with different bounding boxes, both answered successfully
  with the same \<^verbatim>\<open>time_details\<close>.
\<close>

theorem time_details_independent_of_bounds_witness:
  "time_details_of (snd (predict (Some sample_backend) [1, 2, 3] request_full))
     = Some \<lparr>inputStart = ''17:00:00'', inputEnd = ''22:00:00'', predStart = ''23:00:00'',
             predEnd = ''01:00:00'', date = ''2015-01-01'',
             full_start_date = ''2015-01-01 17:00:00''\<rparr>
   \<and> time_details_of (snd (predict (Some sample_backend) [4, 5] request_other_box))
     = Some \<lparr>inputStart = ''17:00:00'', inputEnd = ''22:00:00'', predStart = ''23:00:00'',
             predEnd = ''01:00:00'', date = ''2015-01-01'',
             full_start_date = ''2015-01-01 17:00:00''\<rparr>
   \<and> bound_of request_full ''latMin'' \<noteq> bound_of request_other_box ''latMin''"
proof -
  have p1: "parseable request_full ''latMin''" "parseable request_full ''lonMin''"
    by (simp_all add: parseable_def request_full_def FLOAT_LIMIT_def)
  have p2: "parseable request_other_box ''latMin''" "parseable request_other_box ''lonMin''"
    by (simp_all add: parseable_def request_other_box_def FLOAT_LIMIT_def float_literal_def
          underscores_ok.simps strip_def drop_sign_def lower_def decimal_literal_def
          exponent_ok_def is_digit_def is_space_def)
  let ?td = "\<lparr>inputStart = ''17:00:00'', inputEnd = ''22:00:00'', predStart = ''23:00:00'',
             predEnd = ''01:00:00'', date = ''2015-01-01'',
             full_start_date = ''2015-01-01 17:00:00''\<rparr>"
  have t1: "time_details_of (snd (predict (Some sample_backend) [1, 2, 3] request_full)) = Some ?td"
    using predict_valid [OF p1, of sample_backend "[1, 2, 3]"]
    by (auto simp: run_inference_def sample_backend_def)
  have t2: "time_details_of (snd (predict (Some sample_backend) [4, 5] request_other_box)) = Some ?td"
    using predict_valid [OF p2, of sample_backend "[4, 5]"]
    by (auto simp: run_inference_def sample_backend_def)
  have "bound_of request_full ''latMin'' \<noteq> bound_of request_other_box ''latMin''"
    by (simp add: request_full_def request_other_box_def)
  with t1 t2 time_details_independent_of_bounds [OF t1 t2] show ?thesis by simp
qed

text \<open>
  C9, as the claim states it, fails: a body whose \<^verbatim>\<open>latMin\<close> is the JSON integer \<open>2^1024\<close>
  has \<^verbatim>\<open>latMin\<close> and \<^verbatim>\<open>lonMin\<close> present and numeric, yet \<^verbatim>\<open>float\<close> raises
  \<^verbatim>\<open>OverflowError\<close> on it and the handler answers 400 without calling the model.
\<close>

theorem huge_integer_bound_rejected:
  "map_option is_number (bound_of request_huge_latMin ''latMin'') = Some True
   \<and> map_option is_number (bound_of request_huge_latMin ''lonMin'') = Some True
   \<and> snd (predict (Some sample_backend) [1, 2, 3] request_huge_latMin)
     = Response (ErrorBody ''Invalid input coordinates: int too large to convert to float'')
         400
   \<and> model_calls (fst (predict (Some sample_backend) [1, 2, 3] request_huge_latMin)) = []"
  by (simp add: request_huge_latMin_def predict_def read_bounds_def field_value_def
        FLOAT_LIMIT_def)

text \<open>
  C9, as the code has it. Validation reads only \<^verbatim>\<open>latMin\<close> and \<^verbatim>\<open>lonMin\<close>. For every
  request in which both are present and accepted by \<^verbatim>\<open>float\<close>, the handler converts exactly
  these two values, goes on to call the model, and answers from the model's outcome alone:
  200 with the prediction, or 500 when inference fails, never 400. Nothing is assumed of
  \<^verbatim>\<open>latMax\<close> and \<^verbatim>\<open>lonMax\<close>, which may be absent or malformed.
\<close>

theorem validation_reads_only_min_bounds:
  fixes m :: "('x, 'p) backend"
  assumes "parseable req ''latMin''" and "parseable req ''lonMin''"
  shows "\<exists>a b. bound_of req ''latMin'' = Some a \<and> bound_of req ''lonMin'' = Some b
     \<and> fst (predict (Some m) noise req)
         = [GetJson, ToFloat a, ToFloat b, Predict (random_input module_config noise)]
     \<and> snd (predict (Some m) noise req)
         = (case run_inference m (random_input module_config noise) of
              Inl e \<Rightarrow> Response (ErrorBody (''Model inference failed: '' @ exc_str e)) 500
            | Inr p \<Rightarrow>
                Response (ResultBody p
                  \<lparr>inputStart = ''17:00:00'', inputEnd = ''22:00:00'',
                   predStart = ''23:00:00'', predEnd = ''01:00:00'', date = ''2015-01-01'',
                   full_start_date = ''2015-01-01 17:00:00''\<rparr>) 200)
     \<and> status_code (snd (predict (Some m) noise req)) \<noteq> Some 400"
proof -
  from predict_valid [OF assms, of m noise] obtain a b where
    ab: "bound_of req ''latMin'' = Some a" "bound_of req ''lonMin'' = Some b"
    and p: "predict (Some m) noise req =
         ([GetJson, ToFloat a, ToFloat b, Predict (random_input module_config noise)],
          case run_inference m (random_input module_config noise) of
            Inl e \<Rightarrow> Response (ErrorBody (''Model inference failed: '' @ exc_str e)) 500
          | Inr p \<Rightarrow>
              Response (ResultBody p
                \<lparr>inputStart = ''17:00:00'', inputEnd = ''22:00:00'',
                 predStart = ''23:00:00'', predEnd = ''01:00:00'', date = ''2015-01-01'',
                 full_start_date = ''2015-01-01 17:00:00''\<rparr>) 200)"
    by blast
  have "status_code (snd (predict (Some m) noise req)) \<noteq> Some 400"
    by (simp add: p split: sum.splits)
  with ab p show ?thesis by simp
qed

text \<open>
  Witness for C9: a body with no \<^verbatim>\<open>latMax\<close> and the string \<^verbatim>\<open>abc\<close> as \<^verbatim>\<open>lonMax\<close> is
  answered with status 200.
\<close>

theorem validation_reads_only_min_bounds_witness:
  "parseable request_bad_max ''latMin'' \<and> parseable request_bad_max ''lonMin''
   \<and> bound_of request_bad_max ''latMax'' = None
   \<and> bound_of request_bad_max ''lonMax'' = Some (PStr ''abc'')
   \<and> \<not> parseable request_bad_max ''lonMax''
   \<and> predict (Some sample_backend) [1, 2, 3] request_bad_max
     = ([GetJson, ToFloat (PFloat (Finite (57 / 2))), ToFloat (PInt 77),
         Predict (Tensor [1, 6, 13, 13, 7] [1, 2, 3])],
        Response (ResultBody [1, 2, 3]
          \<lparr>inputStart = ''17:00:00'', inputEnd = ''22:00:00'', predStart = ''23:00:00'',
           predEnd = ''01:00:00'', date = ''2015-01-01'',
           full_start_date = ''2015-01-01 17:00:00''\<rparr>) 200)"
proof -
  have h1: "parseable request_bad_max ''latMin''" and h2: "parseable request_bad_max ''lonMin''"
    by (simp_all add: parseable_def request_bad_max_def FLOAT_LIMIT_def)
  have h3: "\<not> parseable request_bad_max ''lonMax''"
    by (simp add: parseable_def request_bad_max_def float_literal_def
          underscores_ok.simps strip_def drop_sign_def lower_def decimal_literal_def
          exponent_ok_def is_digit_def is_space_def)
  from validation_reads_only_min_bounds [OF h1 h2, of sample_backend "[1, 2, 3]"] h1 h2 h3
  show ?thesis
    by (auto simp: request_bad_max_def run_inference_def sample_backend_def
          random_input_def module_config_def prod_eq_iff)
qed

end
